theory Spec2Isabelle
  imports Complex_Main "HOL-Library.Char_ord" "HOL-Library.List_Lexorder"
begin

section \<open>Data model\<close>

text \<open>
  The dashboard script \<^verbatim>\<open>app.py\<close> works on one pandas table. A table is modelled as the
  list of its rows in index order; a row of the CSV file is a record with one field per
  column the script reads. \<^verbatim>\<open>float64\<close> cells are idealised as real numbers and a
  missing cell (\<^verbatim>\<open>NaN\<close>) of a numeric column is \<open>None\<close>.
\<close>

record csv_row =
  Country :: string
  Age :: int
  Gender :: string
  Exercise_Level :: string
  Diet_Type :: string
  Sleep_Hours :: real
  Stress_Level :: string
  Mental_Health_Condition :: string
  Work_Hours_per_Week :: real
  Screen_Time_per_Day :: real
  Social_Interaction_Score :: real
  Happiness_Score :: real

text \<open>The table \<^verbatim>\<open>load_data\<close> returns has one more column.\<close>

record row = csv_row +
  Stress_Level_Numeric :: "real option"

datatype error = FileNotFoundError | KeyError | ValueError | MissingDataError

section \<open>Dataset loader\<close>

text \<open>
  \<^verbatim>\<open>stress_map = {"Low": 1, "Moderate": 2, "High": 3}\<close> and
  \<^verbatim>\<open>df["Stress Level"].map(stress_map)\<close>: \<^verbatim>\<open>Series.map\<close> with a dictionary
  looks every cell up and gives \<^verbatim>\<open>NaN\<close> for a cell that is not a key.
\<close>

definition stress_map :: "string \<rightharpoonup> real" where
  "stress_map = [''Low'' \<mapsto> 1, ''Moderate'' \<mapsto> 2, ''High'' \<mapsto> 3]"

definition series_map :: "('a \<rightharpoonup> 'b) \<Rightarrow> 'a list \<Rightarrow> 'b option list" where
  "series_map d col = map d col"

definition add_stress_numeric :: "csv_row \<Rightarrow> real option \<Rightarrow> row" where
  "add_stress_numeric r v = csv_row.extend r \<lparr>Stress_Level_Numeric = v\<rparr>"

text \<open>
  \<^verbatim>\<open>pd.read_csv("Mental_Health_Lifestyle_Dataset.csv")\<close> is a parameter: the parsed
  table, or \<open>None\<close> when the file is not there (the call raises and nothing catches it).
\<close>

definition load_data :: "csv_row list option \<Rightarrow> error + row list" where
  "load_data read_csv =
     (case read_csv of
        None \<Rightarrow> Inl FileNotFoundError
      | Some df \<Rightarrow>
          Inr (map2 add_stress_numeric df (series_map stress_map (map Stress_Level df))))"

section \<open>Filter engine\<close>

text \<open>The five sidebar multiselects; each returns the list of the options chosen.\<close>

record selection =
  selected_countries :: "string list"
  selected_genders :: "string list"
  selected_exercise_levels :: "string list"
  selected_diet_types :: "string list"
  selected_mental_health_conditions :: "string list"

text \<open>
  \<^verbatim>\<open>Series.isin(values)\<close> gives one boolean per cell, \<^verbatim>\<open>&\<close> combines two boolean
  columns cell by cell, and \<^verbatim>\<open>df[mask]\<close> keeps the rows whose mask cell is true, in
  their order.
\<close>

definition isin :: "'a list \<Rightarrow> 'a list \<Rightarrow> bool list" where
  "isin col vals = map (\<lambda>v. v \<in> set vals) col"

definition mask_and :: "bool list \<Rightarrow> bool list \<Rightarrow> bool list" where
  "mask_and a b = map2 (\<and>) a b"

definition boolean_index :: "'a list \<Rightarrow> bool list \<Rightarrow> 'a list" where
  "boolean_index df msk = map fst (filter snd (zip df msk))"

definition filtered_df :: "row list \<Rightarrow> selection \<Rightarrow> row list" where
  "filtered_df df sel =
     boolean_index df
       (mask_and
         (mask_and
           (mask_and
             (mask_and
               (isin (map Country df) (selected_countries sel))
               (isin (map Gender df) (selected_genders sel)))
             (isin (map Exercise_Level df) (selected_exercise_levels sel)))
           (isin (map Diet_Type df) (selected_diet_types sel)))
         (isin (map Mental_Health_Condition df) (selected_mental_health_conditions sel)))"

text \<open>The predicate the mask computes for one row.\<close>

definition passes :: "selection \<Rightarrow> row \<Rightarrow> bool" where
  "passes sel r \<longleftrightarrow>
     Country r \<in> set (selected_countries sel) \<and>
     Gender r \<in> set (selected_genders sel) \<and>
     Exercise_Level r \<in> set (selected_exercise_levels sel) \<and>
     Diet_Type r \<in> set (selected_diet_types sel) \<and>
     Mental_Health_Condition r \<in> set (selected_mental_health_conditions sel)"

section \<open>Binning\<close>

text \<open>
  \<^verbatim>\<open>pd.cut(x, bins=edges, labels=labels, right=...)\<close> with a list of edges finds the
  bin of a value by \<^verbatim>\<open>edges.searchsorted(x, side="left" if right else "right")\<close>: the
  number of edges below the value (strictly below when \<^verbatim>\<open>right\<close> is true). An index
  of \<open>0\<close> or of \<open>len(edges)\<close> is no bin (\<^verbatim>\<open>NaN\<close>), any other index \<open>i\<close> is
  \<^verbatim>\<open>labels[i - 1]\<close>. So \<^verbatim>\<open>right=True\<close>, the default, makes the intervals
  open on the left and closed on the right, and \<^verbatim>\<open>right=False\<close> makes them closed
  on the left and open on the right.
  pandas refuses edges that do not increase and a label list that is not one shorter than
  the edges; both calls of the script pass lists that it accepts.
\<close>

definition searchsorted :: "'a::linorder list \<Rightarrow> 'a \<Rightarrow> bool \<Rightarrow> nat" where
  "searchsorted edges x side_left =
     (if side_left then length (filter (\<lambda>e. e < x) edges)
      else length (filter (\<lambda>e. e \<le> x) edges))"

definition cut :: "'a::linorder list \<Rightarrow> string list \<Rightarrow> bool \<Rightarrow> 'a \<Rightarrow> string option" where
  "cut edges labels right x =
     (let ids = searchsorted edges x right
      in if ids = 0 \<or> ids = length edges then None else Some (labels ! (ids - 1)))"

text \<open>
  \<^verbatim>\<open>pd.cut(filtered_df["Age"], bins=bins, labels=labels, right=False)\<close> and
  \<^verbatim>\<open>pd.cut(filtered_df["Sleep Hours"], bins=[0, 4, 6, 8, 12], labels=[...])\<close>; the second
  call does not pass \<^verbatim>\<open>right\<close>.
\<close>

definition age_group :: "int \<Rightarrow> string option" where
  "age_group = cut [15, 25, 35, 45, 55, 65]
     [''18-25'', ''26-35'', ''36-45'', ''46-55'', ''56-65''] False"

definition sleep_bin_labels :: "string list" where
  "sleep_bin_labels = [''<4 hrs'', ''4-6 hrs'', ''6-8 hrs'', ''>8 hrs'']"

definition sleep_bin :: "real \<Rightarrow> string option" where
  "sleep_bin = cut [0, 4, 6, 8, 12] sleep_bin_labels True"

section \<open>Aggregation functions\<close>

subsection \<open>Means\<close>

text \<open>
  \<^verbatim>\<open>Series.mean()\<close> skips missing cells and is \<^verbatim>\<open>NaN\<close> when no cell is left.
\<close>

definition mean :: "real list \<Rightarrow> real option" where
  "mean xs = (if xs = [] then None else Some (sum_list xs / real (length xs)))"

definition dropna :: "'a option list \<Rightarrow> 'a list" where
  "dropna col = concat (map (\<lambda>c. case c of None \<Rightarrow> [] | Some v \<Rightarrow> [v]) col)"

definition series_mean :: "real option list \<Rightarrow> real option" where
  "series_mean col = mean (dropna col)"

subsection \<open>Group mean\<close>

text \<open>
  \<^verbatim>\<open>df.groupby(key)[value].mean()\<close> on an ordinary column: one entry per distinct key in
  the rows, the keys sorted, each with the mean of the value column over the rows of that
  key.
\<close>

definition groupby_mean :: "('r \<Rightarrow> 'k::linorder) \<Rightarrow> ('r \<Rightarrow> real) \<Rightarrow> 'r list \<Rightarrow> ('k \<times> real option) list" where
  "groupby_mean key val rows =
     map (\<lambda>k. (k, mean (map val (filter (\<lambda>r. key r = k) rows))))
       (sort (remdups (map key rows)))"

text \<open>
  Grouping by a categorical column, as \<^verbatim>\<open>pd.cut\<close> makes one: rows with no category are
  dropped, and the keys are the categories in their order. \<^verbatim>\<open>observed\<close> is the
  \<^verbatim>\<open>groupby\<close> argument of that name, which the script leaves to pandas' default
  (\<^verbatim>\<open>False\<close> before pandas 3, \<^verbatim>\<open>True\<close> from pandas 3 on): when false every category
  is a key and a category with no row has a missing mean, when true only the categories
  that occur are keys.
\<close>

definition groupby_categorical_mean ::
  "bool \<Rightarrow> 'k list \<Rightarrow> ('r \<Rightarrow> 'k option) \<Rightarrow> ('r \<Rightarrow> real) \<Rightarrow> 'r list \<Rightarrow> ('k \<times> real option) list" where
  "groupby_categorical_mean observed categories key val rows =
     map (\<lambda>k. (k, mean (map val (filter (\<lambda>r. key r = Some k) rows))))
       (if observed then filter (\<lambda>k. Some k \<in> set (map key rows)) categories else categories)"

subsection \<open>Row-normalised cross-tabulation\<close>

text \<open>
  \<^verbatim>\<open>pd.crosstab(a, b, normalize="index") * 100\<close>: the table of counts over the sorted
  distinct values of both columns, every row divided by its own sum
  (\<^verbatim>\<open>table.div(table.sum(axis=1), axis=0)\<close>), then every cell times 100.
\<close>

definition crosstab_counts :: "('r \<Rightarrow> 'a::linorder) \<Rightarrow> ('r \<Rightarrow> 'b::linorder) \<Rightarrow> 'r list \<Rightarrow> ('a \<times> ('b \<times> nat) list) list" where
  "crosstab_counts rk ck rows =
     map (\<lambda>r. (r, map (\<lambda>c. (c, length (filter (\<lambda>x. rk x = r \<and> ck x = c) rows)))
                    (sort (remdups (map ck rows)))))
       (sort (remdups (map rk rows)))"

definition normalize_index :: "('a \<times> ('b \<times> nat) list) list \<Rightarrow> ('a \<times> ('b \<times> real) list) list" where
  "normalize_index table =
     map (\<lambda>(r, cells). (r, map (\<lambda>(c, n). (c, real n / real (sum_list (map snd cells)))) cells)) table"

definition mul_table :: "real \<Rightarrow> ('a \<times> ('b \<times> real) list) list \<Rightarrow> ('a \<times> ('b \<times> real) list) list" where
  "mul_table k table = map (\<lambda>(r, cells). (r, map (\<lambda>(c, v). (c, v * k)) cells)) table"

definition crosstab_row_normalized :: "('r \<Rightarrow> 'a::linorder) \<Rightarrow> ('r \<Rightarrow> 'b::linorder) \<Rightarrow> 'r list \<Rightarrow> ('a \<times> ('b \<times> real) list) list" where
  "crosstab_row_normalized rk ck rows = mul_table 100 (normalize_index (crosstab_counts rk ck rows))"

text \<open>Reading the table: the cells of a row label, and one cell.\<close>

definition table_row :: "('a \<times> ('b \<times> real) list) list \<Rightarrow> 'a \<Rightarrow> ('b \<times> real) list" where
  "table_row table r = (case map_of table r of None \<Rightarrow> [] | Some cells \<Rightarrow> cells)"

definition table_cell :: "('a \<times> ('b \<times> real) list) list \<Rightarrow> 'a \<Rightarrow> 'b \<Rightarrow> real option" where
  "table_cell table r c = map_of (table_row table r) c"

subsection \<open>Pearson correlation\<close>

text \<open>
  The observations two columns share: the rows where both cells are present.
\<close>

definition complete_pairs :: "real option list \<Rightarrow> real option list \<Rightarrow> (real \<times> real) list" where
  "complete_pairs xs ys =
     concat (map (\<lambda>(x, y). case x of None \<Rightarrow> [] | Some vx \<Rightarrow>
                               (case y of None \<Rightarrow> [] | Some vy \<Rightarrow> [(vx, vy)]))
               (zip xs ys))"

text \<open>
  The textbook quantities: the sum of the products of the deviations from the two means,
  and Pearson's coefficient, which is undefined when there is no observation or a column
  has no spread.
\<close>

definition avg :: "real list \<Rightarrow> real" where
  "avg xs = sum_list xs / real (length xs)"

definition codeviation :: "(real \<times> real) list \<Rightarrow> real" where
  "codeviation ps =
     sum_list (map (\<lambda>(x, y). (x - avg (map fst ps)) * (y - avg (map snd ps))) ps)"

definition swap_pairs :: "(real \<times> real) list \<Rightarrow> (real \<times> real) list" where
  "swap_pairs ps = map (\<lambda>(x, y). (y, x)) ps"

definition twice :: "real list \<Rightarrow> (real \<times> real) list" where
  "twice xs = map (\<lambda>x. (x, x)) xs"

definition pearson :: "(real \<times> real) list \<Rightarrow> real option" where
  "pearson ps =
     (if ps = [] then None
      else let divisor = sqrt (codeviation (twice (map fst ps)) * codeviation (twice (map snd ps)))
           in if divisor \<noteq> 0 then Some (codeviation ps / divisor) else None)"

text \<open>
  Where the real numbers divide zero by zero, \<^verbatim>\<open>float64\<close> arithmetic divides two rounding
  errors, and the result can be \<^verbatim>\<open>NaN\<close>, an infinity or any number. The model does not
  decide these results: they are parameters, functions of the data the division is
  computed from.
\<close>

datatype float64 = Number real | NaN | Plus_Infinity | Minus_Infinity

definition to_float64 :: "real option \<Rightarrow> float64" where
  "to_float64 v = (case v of None \<Rightarrow> NaN | Some r \<Rightarrow> Number r)"

record rounding =
  corr_no_spread :: "(real \<times> real) list \<Rightarrow> float64"
  rsquared_no_spread :: "real list \<Rightarrow> real list \<Rightarrow> float64"

text \<open>
  \<^verbatim>\<open>Series.corr\<close>: \<^verbatim>\<open>NaN\<close> for fewer than two shared observations, Pearson's
  coefficient when both columns have spread, and otherwise what rounding leaves.
\<close>

definition series_corr :: "rounding \<Rightarrow> real option list \<Rightarrow> real option list \<Rightarrow> float64" where
  "series_corr rd xs ys =
     (let ps = complete_pairs xs ys
      in if length ps < 2 then NaN
         else case pearson ps of
                Some r \<Rightarrow> Number r
              | None \<Rightarrow> corr_no_spread rd ps)"

text \<open>
  \<^verbatim>\<open>DataFrame.corr()\<close> runs pandas' \<^verbatim>\<open>nancorr\<close>: for every pair of columns
  \<open>yi \<le> xi\<close> one pass of Welford's update over the rows where both cells are present,
  \<^verbatim>\<open>
  nobs += 1
  dx = vx - meanx;  dy = vy - meany
  meanx += 1 / nobs * dx;  meany += 1 / nobs * dy
  ssqdm_x += (vx - meanx) * dx;  ssqdm_y += (vy - meany) * dy
  covxy += (vx - meanx) * dy
  \<close>
  then \<^verbatim>\<open>divisor = sqrt(ssqdm_x * ssqdm_y)\<close>, and the one value (or \<^verbatim>\<open>NaN\<close> when
  \<^verbatim>\<open>nobs < 1\<close> or the divisor is zero) is stored at both \<open>(xi, yi)\<close> and \<open>(yi, xi)\<close>.
\<close>

record welford =
  nobs :: nat
  meanx :: real
  meany :: real
  ssqdm_x :: real
  ssqdm_y :: real
  covxy :: real

definition welford_init :: welford where
  "welford_init = \<lparr>nobs = 0, meanx = 0, meany = 0, ssqdm_x = 0, ssqdm_y = 0, covxy = 0\<rparr>"

definition welford_update :: "welford \<Rightarrow> real \<times> real \<Rightarrow> welford" where
  "welford_update w p =
     (let vx = fst p; vy = snd p;
          n = nobs w + 1;
          dx = vx - meanx w;
          dy = vy - meany w;
          mx = meanx w + 1 / real n * dx;
          my = meany w + 1 / real n * dy
      in \<lparr>nobs = n, meanx = mx, meany = my,
          ssqdm_x = ssqdm_x w + (vx - mx) * dx,
          ssqdm_y = ssqdm_y w + (vy - my) * dy,
          covxy = covxy w + (vx - mx) * dy\<rparr>)"

definition nancorr_step :: "welford \<Rightarrow> real option \<times> real option \<Rightarrow> welford" where
  "nancorr_step w c =
     (case c of (Some vx, Some vy) \<Rightarrow> welford_update w (vx, vy) | _ \<Rightarrow> w)"

definition nancorr_pair :: "real option list \<Rightarrow> real option list \<Rightarrow> real option" where
  "nancorr_pair xs ys =
     (let w = foldl nancorr_step welford_init (zip xs ys)
      in if nobs w < 1 then None
         else let divisor = sqrt (ssqdm_x w * ssqdm_y w)
              in if divisor \<noteq> 0 then Some (covxy w / divisor) else None)"

definition nancorr :: "real option list list \<Rightarrow> real option list list" where
  "nancorr cols =
     map (\<lambda>i. map (\<lambda>j. if j \<le> i then nancorr_pair (cols ! i) (cols ! j)
                        else nancorr_pair (cols ! j) (cols ! i))
                 [0..<length cols])
       [0..<length cols]"

text \<open>The population variance of the cells a column has.\<close>

definition variance :: "real option list \<Rightarrow> real" where
  "variance col = codeviation (twice (dropna col)) / real (length (dropna col))"

subsection \<open>Least-squares fit\<close>

text \<open>
  \<^verbatim>\<open>X = sm.add_constant(filtered_df[x_var])\<close> puts a column of ones before the x column,
  unless the x column is itself a non-zero constant: then (\<^verbatim>\<open>has_constant="skip"\<close>, the
  default) nothing is added.
\<close>

definition ptp :: "real list \<Rightarrow> real" where
  "ptp xs = Max (set xs) - Min (set xs)"

definition is_nonzero_const :: "real list \<Rightarrow> bool" where
  "is_nonzero_const xs \<longleftrightarrow> xs \<noteq> [] \<and> ptp xs = 0 \<and> (\<exists>v \<in> set xs. v \<noteq> 0)"

definition add_constant :: "real list \<Rightarrow> real list list" where
  "add_constant x = (if is_nonzero_const x then [x] else [replicate (length x) 1, x])"

text \<open>
  \<^verbatim>\<open>sm.OLS(y, X).fit()\<close> solves the least-squares problem with the pseudo-inverse of the
  design matrix, so a design that has not full rank is no error: the solution of least
  norm is taken. The designs \<^verbatim>\<open>add_constant\<close> builds have one column (a non-zero
  constant x) or two; with two columns the x column has no spread only when it is all
  zero, and then the whole fit is on the constant.
\<close>

definition dot :: "real list \<Rightarrow> real list \<Rightarrow> real" where
  "dot xs ys = sum_list (map2 (*) xs ys)"

definition pinv_solve :: "real list list \<Rightarrow> real list \<Rightarrow> real list" where
  "pinv_solve X y =
     (case X of
        [x] \<Rightarrow> [dot x y / dot x x]
      | [c, x] \<Rightarrow>
          (if codeviation (twice x) \<noteq> 0
           then let b = codeviation (zip x y) / codeviation (twice x)
                in [avg y - b * avg x, b]
           else [avg y, 0])
      | _ \<Rightarrow> [])"

definition fittedvalues :: "real list list \<Rightarrow> real list \<Rightarrow> real list" where
  "fittedvalues X beta = map (\<lambda>r. dot r beta) (transpose X)"

definition ssr :: "real list \<Rightarrow> real list \<Rightarrow> real" where
  "ssr y fitted = sum_list (map2 (\<lambda>v f. (v - f)\<^sup>2) y fitted)"

definition centered_tss :: "real list \<Rightarrow> real" where
  "centered_tss y = codeviation (twice y)"

record ols_results =
  params :: "real option list"
  rsquared :: float64
  n_obs :: nat

text \<open>
  The model is built without \<^verbatim>\<open>missing=\<close>: a missing x cell makes the constructor raise
  \<^verbatim>\<open>MissingDataError\<close>, a missing y cell makes every number of the fit \<^verbatim>\<open>NaN\<close>, and a
  table of no rows makes numpy raise \<^verbatim>\<open>ValueError\<close>. Every design has a constant, so
  \<^verbatim>\<open>rsquared\<close> is \<^verbatim>\<open>1 - ssr / centered_tss\<close>; when y has no spread that is a quotient
  of rounding errors.
\<close>

definition ols_fit :: "rounding \<Rightarrow> real option list \<Rightarrow> real option list \<Rightarrow> error + ols_results" where
  "ols_fit rd xcol ycol =
     (if xcol = [] then Inl ValueError
      else if None \<in> set xcol then Inl MissingDataError
      else let X = add_constant (dropna xcol)
           in if None \<in> set ycol
              then Inr \<lparr>params = replicate (length X) None, rsquared = NaN, n_obs = length xcol\<rparr>
              else let y = dropna ycol;
                       beta = pinv_solve X y
                   in Inr \<lparr>params = map Some beta,
                           rsquared =
                             (if centered_tss y = 0 then rsquared_no_spread rd (dropna xcol) y
                              else Number (1 - ssr y (fittedvalues X beta) / centered_tss y)),
                           n_obs = length xcol\<rparr>)"

text \<open>
  \<^verbatim>\<open>model.summary()\<close> lays the results out as a table of text. On the way it runs the
  Jarque-Bera test on the residuals, which raises \<^verbatim>\<open>ValueError\<close> for fewer than two of
  them.
\<close>

definition summary :: "ols_results \<Rightarrow> error + ols_results" where
  "summary model = (if n_obs model < 2 then Inl ValueError else Inr model)"

section \<open>The script\<close>

text \<open>The seven columns of \<^verbatim>\<open>numeric_cols\<close>, in the script's order.\<close>

datatype numeric_col =
  Age_col | Sleep_Hours_col | Work_Hours_col | Screen_Time_col | Social_Interaction_col
  | Happiness_col | Stress_Numeric_col

definition numeric_cols :: "numeric_col list" where
  "numeric_cols = [Age_col, Sleep_Hours_col, Work_Hours_col, Screen_Time_col,
     Social_Interaction_col, Happiness_col, Stress_Numeric_col]"

fun cell :: "numeric_col \<Rightarrow> row \<Rightarrow> real option" where
  "cell Age_col r = Some (real_of_int (Age r))"
| "cell Sleep_Hours_col r = Some (Sleep_Hours r)"
| "cell Work_Hours_col r = Some (Work_Hours_per_Week r)"
| "cell Screen_Time_col r = Some (Screen_Time_per_Day r)"
| "cell Social_Interaction_col r = Some (Social_Interaction_Score r)"
| "cell Happiness_col r = Some (Happiness_Score r)"
| "cell Stress_Numeric_col r = Stress_Level_Numeric r"

text \<open>
  The working table \<^verbatim>\<open>filtered_df\<close>: the rows the filter kept, and the three columns the
  script assigns to it while it runs (absent until assigned).
\<close>

record frame =
  frame_rows :: "row list"
  Happiness_Jitter :: "real list option"
  Age_Group :: "string option list option"
  Sleep_Bin :: "string option list option"

definition new_frame :: "row list \<Rightarrow> frame" where
  "new_frame rows = \<lparr>frame_rows = rows, Happiness_Jitter = None, Age_Group = None, Sleep_Bin = None\<rparr>"

definition column :: "numeric_col \<Rightarrow> frame \<Rightarrow> real option list" where
  "column c fr = map (cell c) (frame_rows fr)"

text \<open>
  \<^verbatim>\<open>np.random.normal(0, 0.1, size=n)\<close> is a parameter \<open>normal\<close>: the sample drawn for each
  position.
\<close>

definition assign_jitter :: "(nat \<Rightarrow> real) \<Rightarrow> frame \<Rightarrow> frame" where
  "assign_jitter normal fr =
     fr\<lparr>Happiness_Jitter :=
          Some (map2 (+) (map Happiness_Score (frame_rows fr))
                         (map normal [0..<length (frame_rows fr)]))\<rparr>"

definition assign_age_group :: "frame \<Rightarrow> frame" where
  "assign_age_group fr = fr\<lparr>Age_Group := Some (map (\<lambda>r. age_group (Age r)) (frame_rows fr))\<rparr>"

definition assign_sleep_bin :: "frame \<Rightarrow> frame" where
  "assign_sleep_bin fr = fr\<lparr>Sleep_Bin := Some (map (\<lambda>r. sleep_bin (Sleep_Hours r)) (frame_rows fr))\<rparr>"

text \<open>
  The widgets the modelled computations read: the five multiselects and the two variable
  pickers of the relationship explorer. The other widgets only choose how charts are
  drawn.
\<close>

record ui =
  filters :: selection
  x_var :: numeric_col
  y_var :: numeric_col

text \<open>
  What a run puts on the page, in the order of the script: the map of country means, the
  four averages, the two percentage charts, the jitter scatter plot, the figure of the
  three group means, the correlation heatmap, the two regression metrics and the text of
  the regression summary. A metric holds its label and the number the script formats
  into it. The charts drawn straight from the rows (pie and bar counts, box plots,
  scatter matrix, regression scatter) and the age-group chart are not modelled.
\<close>

datatype element =
    Choropleth "(string \<times> real option) list"
  | Metric string float64
  | Percent_Bars string "(string \<times> (string \<times> real) list) list"
  | Scatter "real list"
  | Mean_Bars "(string \<times> real option) list" "(string \<times> real option) list"
      "(string \<times> real option) list"
  | Heatmap "real option list list"
  | Code ols_results

text \<open>
  A run ends in one of three ways: the script reaches its end, \<^verbatim>\<open>st.error\<close> is followed
  by \<^verbatim>\<open>st.stop()\<close>, or an exception is raised that nothing catches. What was put on the
  page before stays there. Reading a column of the working table that was never assigned
  raises \<^verbatim>\<open>KeyError\<close>.
\<close>

datatype ending = Completed | Stopped string | Crashed error

record outcome =
  shown :: "element list"
  ending :: ending

definition overview :: "row list \<Rightarrow> element list" where
  "overview rows =
     (let fr = new_frame rows
      in [Choropleth (groupby_mean Country Happiness_Score (frame_rows fr)),
          Metric ''Average Happiness'' (to_float64 (series_mean (column Happiness_col fr))),
          Metric ''Average Stress Level'' (to_float64 (series_mean (column Stress_Numeric_col fr))),
          Metric ''Social Interaction'' (to_float64 (series_mean (column Social_Interaction_col fr))),
          Metric ''Sleep Hours'' (to_float64 (series_mean (column Sleep_Hours_col fr))),
          Percent_Bars ''Country''
            (crosstab_row_normalized Country Mental_Health_Condition (frame_rows fr)),
          Percent_Bars ''Gender''
            (crosstab_row_normalized Gender Mental_Health_Condition (frame_rows fr))])"

definition tabs :: "row list \<Rightarrow> ui \<Rightarrow> bool \<Rightarrow> (nat \<Rightarrow> real) \<Rightarrow> rounding \<Rightarrow> outcome" where
  "tabs rows u observed normal rd =
     (let fr0 = new_frame rows;
          page0 = overview rows;
          fr1 = assign_jitter normal fr0
      in case Happiness_Jitter fr1 of
           None \<Rightarrow> \<lparr>shown = page0, ending = Crashed KeyError\<rparr>
         | Some jitter \<Rightarrow>
      (let page1 = page0 @ [Scatter jitter];
           fr2 = assign_age_group fr1;
           exercise_happiness = groupby_mean Exercise_Level Happiness_Score (frame_rows fr2);
           diet_happiness = groupby_mean Diet_Type Happiness_Score (frame_rows fr2);
           fr3 = assign_sleep_bin fr2
       in case Sleep_Bin fr3 of
            None \<Rightarrow> \<lparr>shown = page1, ending = Crashed KeyError\<rparr>
          | Some bins \<Rightarrow>
      (let sleep_happiness =
             groupby_categorical_mean observed sleep_bin_labels snd (Happiness_Score \<circ> fst)
               (zip (frame_rows fr3) bins);
           corr_matrix = nancorr (map (\<lambda>c. column c fr3) numeric_cols);
           page2 = page1 @ [Mean_Bars exercise_happiness diet_happiness sleep_happiness,
                            Heatmap corr_matrix]
       in case ols_fit rd (column (x_var u) fr3) (column (y_var u) fr3) of
            Inl e \<Rightarrow> \<lparr>shown = page2, ending = Crashed e\<rparr>
          | Inr model \<Rightarrow>
      (let page3 = page2 @
             [Metric ''Correlation Coefficient''
                (series_corr rd (column (x_var u) fr3) (column (y_var u) fr3)),
              Metric ''R-squared'' (rsquared model)]
       in case summary model of
            Inl e \<Rightarrow> \<lparr>shown = page3, ending = Crashed e\<rparr>
          | Inr details \<Rightarrow> \<lparr>shown = page3 @ [Code details], ending = Completed\<rparr>))))"

definition run :: "csv_row list option \<Rightarrow> ui \<Rightarrow> bool \<Rightarrow> (nat \<Rightarrow> real) \<Rightarrow> rounding \<Rightarrow> outcome" where
  "run read_csv u observed normal rd =
     (case load_data read_csv of
        Inl e \<Rightarrow> \<lparr>shown = [], ending = Crashed e\<rparr>
      | Inr df \<Rightarrow>
          (let rows = filtered_df df (filters u)
           in if rows = []
              then \<lparr>shown = [],
                    ending = Stopped ''No data matches your filter criteria. Please adjust your selections.''\<rparr>
              else tabs rows u observed normal rd))"

text \<open>
  The numbers a run shows as metrics or as the correlation heatmap, and among them those
  of the overview: the four averages and the heatmap.
\<close>

definition is_scatter :: "element \<Rightarrow> bool" where
  "is_scatter e = (case e of Scatter _ \<Rightarrow> True | _ \<Rightarrow> False)"

definition is_summary :: "element \<Rightarrow> bool" where
  "is_summary e = (case e of Metric _ _ \<Rightarrow> True | Heatmap _ \<Rightarrow> True | _ \<Rightarrow> False)"

definition is_average_or_heatmap :: "element \<Rightarrow> bool" where
  "is_average_or_heatmap e =
     (case e of
        Metric label _ \<Rightarrow>
          label \<in> set [''Average Happiness'', ''Average Stress Level'', ''Social Interaction'',
                        ''Sleep Hours'']
      | Heatmap _ \<Rightarrow> True
      | _ \<Rightarrow> False)"


section \<open>Example data\<close>

text \<open>Rows of a loaded table, CSV rows and selections, used to run the definitions.\<close>

definition row_A :: row where
  "row_A = \<lparr>Country = ''Brazil'', Age = 25, Gender = ''Female'', Exercise_Level = ''Low'',
     Diet_Type = ''Vegan'', Sleep_Hours = 5, Stress_Level = ''Low'',
     Mental_Health_Condition = ''Anxiety'', Work_Hours_per_Week = 40,
     Screen_Time_per_Day = 3, Social_Interaction_Score = 6, Happiness_Score = 7,
     Stress_Level_Numeric = Some 1\<rparr>"

definition row_B :: row where
  "row_B = \<lparr>Country = ''Japan'', Age = 40, Gender = ''Male'', Exercise_Level = ''High'',
     Diet_Type = ''Keto'', Sleep_Hours = 12, Stress_Level = ''Severe'',
     Mental_Health_Condition = ''PTSD'', Work_Hours_per_Week = 50,
     Screen_Time_per_Day = 2, Social_Interaction_Score = 4, Happiness_Score = 9,
     Stress_Level_Numeric = None\<rparr>"

definition only_brazil :: selection where
  "only_brazil = \<lparr>selected_countries = [''Brazil''], selected_genders = [''Female'', ''Male''],
     selected_exercise_levels = [''High'', ''Low''], selected_diet_types = [''Keto'', ''Vegan''],
     selected_mental_health_conditions = [''Anxiety'', ''PTSD'']\<rparr>"

definition csv_B :: csv_row where
  "csv_B = \<lparr>Country = ''Japan'', Age = 40, Gender = ''Male'', Exercise_Level = ''High'',
     Diet_Type = ''Keto'', Sleep_Hours = 12, Stress_Level = ''Severe'',
     Mental_Health_Condition = ''PTSD'', Work_Hours_per_Week = 50,
     Screen_Time_per_Day = 2, Social_Interaction_Score = 4, Happiness_Score = 9\<rparr>"

definition nothing_selected :: selection where
  "nothing_selected = \<lparr>selected_countries = [], selected_genders = [],
     selected_exercise_levels = [], selected_diet_types = [],
     selected_mental_health_conditions = []\<rparr>"

text \<open>A working table of one row with its sleep bin.\<close>

definition sleep_snapshot :: "(row \<times> string option) list" where
  "sleep_snapshot = [(row_A, sleep_bin (Sleep_Hours row_A))]"

definition row_C :: row where
  "row_C = \<lparr>Country = ''Brazil'', Age = 31, Gender = ''Male'', Exercise_Level = ''Moderate'',
     Diet_Type = ''Balanced'', Sleep_Hours = 15 / 2, Stress_Level = ''Moderate'',
     Mental_Health_Condition = ''Depression'', Work_Hours_per_Week = 35,
     Screen_Time_per_Day = 4, Social_Interaction_Score = 8, Happiness_Score = 5,
     Stress_Level_Numeric = Some 2\<rparr>"

text \<open>The columns \<^verbatim>\<open>filtered_df[numeric_cols]\<close> of the three example rows.\<close>

definition example_columns :: "real option list list" where
  "example_columns = map (\<lambda>c. column c (new_frame [row_A, row_B, row_C])) numeric_cols"

section \<open>Example runs\<close>

text \<open>
  The CSV rows of the first and third example rows, a selection that keeps every example
  row, two settings of the widgets, and one way rounding can fall.
\<close>

definition csv_A :: csv_row where
  "csv_A = \<lparr>Country = ''Brazil'', Age = 25, Gender = ''Female'', Exercise_Level = ''Low'',
     Diet_Type = ''Vegan'', Sleep_Hours = 5, Stress_Level = ''Low'',
     Mental_Health_Condition = ''Anxiety'', Work_Hours_per_Week = 40,
     Screen_Time_per_Day = 3, Social_Interaction_Score = 6, Happiness_Score = 7\<rparr>"


definition everything_selected :: selection where
  "everything_selected =
     \<lparr>selected_countries = [''Brazil'', ''Japan''], selected_genders = [''Female'', ''Male''],
      selected_exercise_levels = [''High'', ''Low'', ''Moderate''],
      selected_diet_types = [''Balanced'', ''Keto'', ''Vegan''],
      selected_mental_health_conditions = [''Anxiety'', ''Depression'', ''PTSD'']\<rparr>"

definition age_vs_happiness :: ui where
  "age_vs_happiness = \<lparr>filters = everything_selected, x_var = Age_col, y_var = Happiness_col\<rparr>"


definition stress_vs_happiness :: ui where
  "stress_vs_happiness =
     \<lparr>filters = everything_selected, x_var = Stress_Numeric_col, y_var = Happiness_col\<rparr>"

definition some_rounding :: rounding where
  "some_rounding = \<lparr>corr_no_spread = (\<lambda>ps. NaN), rsquared_no_spread = (\<lambda>x y. Minus_Infinity)\<rparr>"

section \<open>Filter properties\<close>

lemma boolean_index_map: "boolean_index df (map p df) = filter p df"
  unfolding boolean_index_def by (induction df) auto

lemma mask_and_map: "mask_and (map p df) (map q df) = map (\<lambda>r. p r \<and> q r) df"
  unfolding mask_and_def by (induction df) auto

lemma isin_map: "isin (map f df) vals = map (\<lambda>r. f r \<in> set vals) df"
  unfolding isin_def by (simp add: comp_def)

lemma filtered_df_filter: "filtered_df df sel = filter (passes sel) df"
proof -
  have "filtered_df df sel = boolean_index df (map (passes sel) df)"
    unfolding filtered_df_def isin_map mask_and_map passes_def by (simp add: conj_assoc)
  then show ?thesis by (simp only: boolean_index_map)
qed

text \<open>
  C1. The filtered table is the rows of the dataset, in their order, whose five filtered
  cells each belong to the selection of their column: a row is kept if and only if all
  five memberships hold, so a row of the dataset that is not kept fails at least one.
\<close>

theorem filtered_df_membership:
  "filtered_df df sel = filter (passes sel) df \<and>
   (r \<in> set (filtered_df df sel) \<longleftrightarrow>
      r \<in> set df \<and>
      Country r \<in> set (selected_countries sel) \<and>
      Gender r \<in> set (selected_genders sel) \<and>
      Exercise_Level r \<in> set (selected_exercise_levels sel) \<and>
      Diet_Type r \<in> set (selected_diet_types sel) \<and>
      Mental_Health_Condition r \<in> set (selected_mental_health_conditions sel)) \<and>
   (r \<in> set df \<and> r \<notin> set (filtered_df df sel) \<longrightarrow>
      Country r \<notin> set (selected_countries sel) \<or>
      Gender r \<notin> set (selected_genders sel) \<or>
      Exercise_Level r \<notin> set (selected_exercise_levels sel) \<or>
      Diet_Type r \<notin> set (selected_diet_types sel) \<or>
      Mental_Health_Condition r \<notin> set (selected_mental_health_conditions sel))"
proof -
  have eq: "filtered_df df sel = filter (passes sel) df"
    by (rule filtered_df_filter)
  have mem: "r \<in> set (filtered_df df sel) \<longleftrightarrow> r \<in> set df \<and> passes sel r"
    by (simp add: eq)
  show ?thesis
    using eq mem unfolding passes_def by blast
qed

theorem filtered_df_membership_witness:
  "row_B \<in> set [row_A, row_B] \<and> row_B \<notin> set (filtered_df [row_A, row_B] only_brazil) \<and>
   Country row_B \<notin> set (selected_countries only_brazil) \<and>
   filtered_df [row_A, row_B] only_brazil = [row_A]"
  using filtered_df_membership [of "[row_A, row_B]" only_brazil row_B]
  by (simp add: passes_def row_A_def row_B_def only_brazil_def)

text \<open>
  C7. Filtering is idempotent: filtering the filtered table again with the same selection
  gives the same rows in the same order.
\<close>

theorem filtered_df_idempotent:
  "filtered_df (filtered_df df sel) sel = filtered_df df sel"
  by (simp add: filtered_df_filter)

section \<open>Loader properties\<close>

lemma stress_map_cases:
  "stress_map s = (if s = ''Low'' then Some 1 else if s = ''Moderate'' then Some 2
                   else if s = ''High'' then Some 3 else None)"
  by (simp add: stress_map_def)

lemma map2_map_same: "map2 f xs (map g xs) = map (\<lambda>x. f x (g x)) xs"
  by (induction xs) simp_all

lemma load_data_Some:
  "load_data (Some df) = Inr (map (\<lambda>r. add_stress_numeric r (stress_map (Stress_Level r))) df)"
  by (simp add: load_data_def series_map_def map2_map_same comp_def)

lemma load_data_csv_B: "load_data (Some [csv_B]) = Inr [row_B]"
  by (simp add: load_data_Some csv_B_def row_B_def add_stress_numeric_def stress_map_def
      csv_row.extend_def)

text \<open>
  C2, as stated, fails: a table whose only row has the stress label \<open>Severe\<close> loads, and
  the row's numeric stress is missing.
\<close>

theorem load_data_unknown_stress_counterexample:
  "Stress_Level csv_B = ''Severe'' \<and> load_data (Some [csv_B]) = Inr [row_B] \<and>
   Stress_Level_Numeric row_B = None"
  using load_data_csv_B by (simp add: csv_B_def row_B_def)

text \<open>
  C2, amended. When the file is read, the load succeeds: every row is kept as it is and
  gets a numeric stress by the mapping Low to 1, Moderate to 2, High to 3, which is
  missing for every other label.
\<close>

theorem load_data_stress_numeric:
  "load_data (Some df) = Inr (map (\<lambda>r. add_stress_numeric r (stress_map (Stress_Level r))) df) \<and>
   csv_row.truncate (add_stress_numeric r v) = r \<and>
   Stress_Level_Numeric (add_stress_numeric r v) = v \<and>
   stress_map ''Low'' = Some 1 \<and> stress_map ''Moderate'' = Some 2 \<and>
   stress_map ''High'' = Some 3 \<and>
   (s \<notin> {''Low'', ''Moderate'', ''High''} \<longrightarrow> stress_map s = None)"
proof -
  have "csv_row.truncate (add_stress_numeric r v) = r"
    by (cases r) (simp add: add_stress_numeric_def csv_row.truncate_def csv_row.extend_def)
  moreover have "Stress_Level_Numeric (add_stress_numeric r v) = v"
    by (cases r) (simp add: add_stress_numeric_def csv_row.extend_def)
  moreover have "s \<notin> {''Low'', ''Moderate'', ''High''} \<longrightarrow> stress_map s = None"
    by (simp add: stress_map_cases)
  ultimately show ?thesis
    by (simp add: load_data_Some stress_map_cases)
qed

theorem load_data_stress_numeric_witness:
  "''Severe'' \<notin> {''Low'', ''Moderate'', ''High''} \<and> stress_map ''Severe'' = None \<and>
   load_data (Some [csv_B]) = Inr [add_stress_numeric csv_B None] \<and>
   Stress_Level_Numeric (add_stress_numeric csv_B None) = None"
  using load_data_stress_numeric [of "[csv_B]" csv_B None "''Severe''"]
  by (simp add: csv_B_def)

section \<open>The empty subset\<close>

lemma filtered_df_nothing_selected:
  "selected_countries sel = [] \<Longrightarrow> filtered_df df sel = []"
  by (simp add: filtered_df_filter passes_def)

text \<open>
  C3. When the filter keeps no row, the run ends at the message of \<^verbatim>\<open>st.error\<close> and
  \<^verbatim>\<open>st.stop()\<close>: it has shown nothing, so no aggregate was computed, and its ending is
  \<open>Stopped\<close>, not a crash. Five empty selections keep no row.
\<close>

theorem run_stops_on_empty_subset:
  "load_data read_csv = Inr df \<longrightarrow>
     (filtered_df df (filters u) = [] \<longrightarrow>
        run read_csv u observed normal rd =
          \<lparr>shown = [],
           ending = Stopped ''No data matches your filter criteria. Please adjust your selections.''\<rparr>) \<and>
     (filters u = nothing_selected \<longrightarrow> filtered_df df (filters u) = [])"
  by (simp add: run_def filtered_df_nothing_selected nothing_selected_def)

theorem run_stops_on_empty_subset_witness:
  "load_data (Some [csv_B]) = Inr [row_B] \<and>
   filtered_df [row_B] nothing_selected = [] \<and>
   run (Some [csv_B]) \<lparr>filters = nothing_selected, x_var = Age_col, y_var = Happiness_col\<rparr>
       False (\<lambda>i. 0) some_rounding =
     \<lparr>shown = [],
      ending = Stopped ''No data matches your filter criteria. Please adjust your selections.''\<rparr>"
  using run_stops_on_empty_subset [of "Some [csv_B]" "[row_B]"
      "\<lparr>filters = nothing_selected, x_var = Age_col, y_var = Happiness_col\<rparr>" False "\<lambda>i. 0"
      some_rounding]
    load_data_csv_B
  by simp

section \<open>Binning properties\<close>

lemma filter_sorted_prefix:
  fixes es :: "'a::linorder list"
  assumes k: "k \<le> length es"
    and below: "\<And>j. j < k \<Longrightarrow> P (es ! j)"
    and above: "\<And>j. k \<le> j \<Longrightarrow> j < length es \<Longrightarrow> \<not> P (es ! j)"
  shows "length (filter P es) = k"
proof -
  have "filter P es = filter P (take k es) @ filter P (drop k es)"
    by (metis append_take_drop_id filter_append)
  moreover have "filter P (take k es) = take k es"
  proof (rule filter_True, rule ballI)
    fix e assume "e \<in> set (take k es)"
    then obtain j where "j < k" "j < length es" "e = es ! j"
      by (auto simp: in_set_conv_nth)
    then show "P e" using below by simp
  qed
  moreover have "filter P (drop k es) = []"
  proof (rule filter_False, rule ballI)
    fix e assume "e \<in> set (drop k es)"
    then obtain j where "j < length es - k" "e = es ! (k + j)"
      by (auto simp: in_set_conv_nth)
    then show "\<not> P e" using above [of "k + j"] by simp
  qed
  ultimately show ?thesis using k by simp
qed

text \<open>
  For increasing edges and one label less than edges, a value gets the label of the
  interval that holds it: closed on the left with \<^verbatim>\<open>right=False\<close>, closed on the
  right with \<^verbatim>\<open>right=True\<close>.
\<close>

lemma cut_intervals:
  fixes edges :: "'a::linorder list"
  assumes "sorted_wrt (<) edges" and "length labels + 1 = length edges" and "i < length labels"
  shows "(edges ! i \<le> x \<and> x < edges ! (i + 1) \<longrightarrow> cut edges labels False x = Some (labels ! i)) \<and>
         (edges ! i < x \<and> x \<le> edges ! (i + 1) \<longrightarrow> cut edges labels True x = Some (labels ! i))"
proof (intro conjI impI; elim conjE)
  have i1: "i + 1 < length edges" using assms(2,3) by simp
  note nth_less = sorted_wrt_nth_less [OF assms(1)]
  {
    assume lo: "edges ! i \<le> x" and hi: "x < edges ! (i + 1)"
    have "length (filter (\<lambda>e. e \<le> x) edges) = i + 1"
    proof (rule filter_sorted_prefix)
      show "i + 1 \<le> length edges" using i1 by simp
    next
      fix j assume "j < i + 1"
      then have "j = i \<or> j < i" by auto
      then show "edges ! j \<le> x"
        using lo nth_less [of j i] i1 by (auto intro: order.trans less_imp_le)
    next
      fix j assume "i + 1 \<le> j" "j < length edges"
      then have "j = i + 1 \<or> i + 1 < j" by auto
      then have "edges ! (i + 1) \<le> edges ! j"
        using nth_less [of "i + 1" j] \<open>j < length edges\<close> by (auto intro: less_imp_le)
      with hi show "\<not> edges ! j \<le> x" by auto
    qed
    then show "cut edges labels False x = Some (labels ! i)"
      using i1 by (simp add: cut_def searchsorted_def)
  }
  {
    assume lo: "edges ! i < x" and hi: "x \<le> edges ! (i + 1)"
    have "length (filter (\<lambda>e. e < x) edges) = i + 1"
    proof (rule filter_sorted_prefix)
      show "i + 1 \<le> length edges" using i1 by simp
    next
      fix j assume "j < i + 1"
      then have "j = i \<or> j < i" by auto
      then show "edges ! j < x"
        using lo nth_less [of j i] i1 by (auto intro: less_trans)
    next
      fix j assume "i + 1 \<le> j" "j < length edges"
      then have "j = i + 1 \<or> i + 1 < j" by auto
      then have "edges ! (i + 1) \<le> edges ! j"
        using nth_less [of "i + 1" j] \<open>j < length edges\<close> by (auto intro: less_imp_le)
      with hi show "\<not> edges ! j < x" by auto
    qed
    then show "cut edges labels True x = Some (labels ! i)"
      using i1 by (simp add: cut_def searchsorted_def)
  }
qed

lemma cut_intervals_examples:
  "age_group 25 = Some ''26-35'' \<and> sleep_bin 12 = Some ''>8 hrs''"
  using cut_intervals [of "[15, 25, 35, 45, 55, 65 :: int]"
      "[''18-25'', ''26-35'', ''36-45'', ''46-55'', ''56-65'']" 1 25]
    cut_intervals [of "[0, 4, 6, 8, 12 :: real]" sleep_bin_labels 3 12]
  by (simp add: age_group_def sleep_bin_def sleep_bin_labels_def)


text \<open>
  C4. The sleep bins are closed on the right, not on the left: 5 hours fall in
  \<open>4-6 hrs\<close>, but 0 hours have no bin, 12 hours fall in \<open>>8 hrs\<close> and 4 hours fall in
  \<open><4 hrs\<close>. The age groups, cut with \<^verbatim>\<open>right=False\<close>, are closed on the left.
\<close>

theorem sleep_bin_edges:
  "sleep_bin 5 = Some ''4-6 hrs'' \<and> sleep_bin 0 = None \<and> sleep_bin 12 = Some ''>8 hrs'' \<and>
   sleep_bin 4 = Some ''<4 hrs'' \<and>
   age_group 25 = Some ''26-35'' \<and> age_group 15 = Some ''18-25'' \<and> age_group 65 = None"
  by (simp add: sleep_bin_def age_group_def cut_def searchsorted_def sleep_bin_labels_def)

section \<open>Group mean properties\<close>

lemma groupby_mean_keys:
  "map fst (groupby_mean key val rows) = sort (remdups (map key rows))"
  by (simp add: groupby_mean_def comp_def)

lemma groupby_mean_lookup:
  "map_of (groupby_mean key val rows) k =
     (if k \<in> key ` set rows then Some (mean (map val (filter (\<lambda>r. key r = k) rows))) else None)"
  by (simp add: groupby_mean_def map_of_map_restrict restrict_map_def)

lemma mean_nonempty: "xs \<noteq> [] \<Longrightarrow> mean xs = Some (sum_list xs / real (length xs))"
  by (simp add: mean_def)

lemma group_nonempty:
  assumes "k \<in> key ` set rows"
  shows "map val (filter (\<lambda>r. key r = k) rows) \<noteq> []"
proof -
  from assms obtain r where "r \<in> set rows" "key r = k" by auto
  then have "r \<in> set (filter (\<lambda>r. key r = k) rows)" by simp
  then show ?thesis by (auto simp: filter_empty_conv)
qed

lemma categorical_keys:
  "map fst (groupby_categorical_mean observed cats key val rows) =
     (if observed then filter (\<lambda>k. Some k \<in> key ` set rows) cats else cats)"
  by (simp add: groupby_categorical_mean_def comp_def)

lemma categorical_lookup:
  "map_of (groupby_categorical_mean observed cats key val rows) c =
     (if c \<in> set cats \<and> (observed \<longrightarrow> Some c \<in> key ` set rows)
      then Some (mean (map val (filter (\<lambda>r. key r = Some c) rows))) else None)"
  by (simp add: groupby_categorical_mean_def map_of_map_restrict restrict_map_def)

text \<open>
  C6, amended. Grouping by an ordinary column gives exactly the distinct keys of the rows,
  sorted, each with the arithmetic mean of the value column over its rows, and no entry
  for a key that has no row; the three-row example gives A 3 and B 10. Grouping by a
  categorical column gives the categories that occur when \<open>observed\<close> is true; when it
  is false every category is a key, and one with no row has a missing mean.
\<close>

theorem groupby_mean_groups:
  fixes key :: "'r \<Rightarrow> 'k::linorder" and ckey :: "'r \<Rightarrow> 'c option"
  shows
  "map fst (groupby_mean key val rows) = sort (remdups (map key rows)) \<and>
   set (map fst (groupby_mean key val rows)) = key ` set rows \<and>
   map_of (groupby_mean key val rows) k =
     (if k \<in> key ` set rows
      then Some (Some (sum_list (map val (filter (\<lambda>r. key r = k) rows)) /
                       real (length (filter (\<lambda>r. key r = k) rows))))
      else None) \<and>
   groupby_mean fst snd [(''A'', 2), (''A'', 4), (''B'', 10)] = [(''A'', Some 3), (''B'', Some 10)] \<and>
   map fst (groupby_categorical_mean True cats ckey val rows) =
     filter (\<lambda>c. Some c \<in> ckey ` set rows) cats \<and>
   map fst (groupby_categorical_mean False cats ckey val rows) = cats \<and>
   (c \<in> set cats \<longrightarrow>
      map_of (groupby_categorical_mean observed cats ckey val rows) c =
        (if Some c \<in> ckey ` set rows
         then Some (Some (sum_list (map val (filter (\<lambda>r. ckey r = Some c) rows)) /
                          real (length (filter (\<lambda>r. ckey r = Some c) rows))))
         else if observed then None else Some None))"
proof -
  have keys: "set (map fst (groupby_mean key val rows)) = key ` set rows"
    by (simp add: groupby_mean_keys)
  have lookup: "map_of (groupby_mean key val rows) k =
     (if k \<in> key ` set rows
      then Some (Some (sum_list (map val (filter (\<lambda>r. key r = k) rows)) /
                       real (length (filter (\<lambda>r. key r = k) rows))))
      else None)"
  proof (cases "k \<in> key ` set rows")
    case True
    then show ?thesis
      using mean_nonempty [OF group_nonempty [OF True, of val]]
      by (simp add: groupby_mean_lookup)
  next
    case False
    then show ?thesis by (simp add: groupby_mean_lookup)
  qed
  have example: "groupby_mean fst snd [(''A'', 2::real), (''A'', 4), (''B'', 10)] =
      [(''A'', Some 3), (''B'', Some 10)]"
    by (simp add: groupby_mean_def mean_def)
  have cat: "c \<in> set cats \<longrightarrow>
      map_of (groupby_categorical_mean observed cats ckey val rows) c =
        (if Some c \<in> ckey ` set rows
         then Some (Some (sum_list (map val (filter (\<lambda>r. ckey r = Some c) rows)) /
                          real (length (filter (\<lambda>r. ckey r = Some c) rows))))
         else if observed then None else Some None)"
  proof (cases "Some c \<in> ckey ` set rows")
    case True
    then show ?thesis
      using mean_nonempty [OF group_nonempty [OF True, of val]]
      by (simp add: categorical_lookup)
  next
    case False
    then have "filter (\<lambda>r. ckey r = Some c) rows = []"
      by (auto simp: filter_empty_conv image_iff)
    with False show ?thesis
      by (simp add: categorical_lookup mean_def)
  qed
  show ?thesis
    using keys lookup example cat
    by (simp only: groupby_mean_keys categorical_keys simp_thms if_True if_False)
qed

theorem groupby_mean_groups_witness:
  "''<4 hrs'' \<in> set sleep_bin_labels \<and>
   Some ''<4 hrs'' \<notin> snd ` set sleep_snapshot \<and>
   map_of (groupby_categorical_mean False sleep_bin_labels snd (Happiness_Score \<circ> fst)
             sleep_snapshot) ''<4 hrs'' = Some None \<and>
   map_of (groupby_categorical_mean True sleep_bin_labels snd (Happiness_Score \<circ> fst)
             sleep_snapshot) ''<4 hrs'' = None \<and>
   map_of (groupby_mean (Country \<circ> fst) (Happiness_Score \<circ> fst) sleep_snapshot) ''Brazil'' =
     Some (Some 7)"
  using groupby_mean_groups [where cats = sleep_bin_labels and ckey = snd
      and val = "Happiness_Score \<circ> fst" and rows = sleep_snapshot and c = "''<4 hrs''"
      and observed = False and key = "Country \<circ> fst" and k = "''Brazil''"]
    groupby_mean_groups [where cats = sleep_bin_labels and ckey = snd
      and val = "Happiness_Score \<circ> fst" and rows = sleep_snapshot and c = "''<4 hrs''"
      and observed = True and key = "Country \<circ> fst" and k = "''Brazil''"]
  by (simp add: sleep_snapshot_def sleep_bin_labels_def sleep_bin_def cut_def
      searchsorted_def row_A_def)

text \<open>
  C6, as stated, fails on the sleep bins when pandas groups with \<open>observed=False\<close>: one
  row of 5 hours of sleep gives four keys, three of them bins that have no row.
\<close>

theorem sleep_bin_groupby_counterexample:
  "sleep_snapshot = [(row_A, Some ''4-6 hrs'')] \<and>
   groupby_categorical_mean False sleep_bin_labels snd (Happiness_Score \<circ> fst) sleep_snapshot =
     [(''<4 hrs'', None), (''4-6 hrs'', Some 7), (''6-8 hrs'', None), (''>8 hrs'', None)]"
  by (simp add: groupby_categorical_mean_def sleep_snapshot_def sleep_bin_labels_def
      sleep_bin_def cut_def searchsorted_def row_A_def mean_def)

section \<open>Cross-tabulation properties\<close>

lemma sum_list_indicator:
  "distinct cs \<Longrightarrow> k \<in> set cs \<Longrightarrow> sum_list (map (\<lambda>c. if k = c then 1 else 0) cs) = (1::nat)"
proof (induction cs)
  case Nil
  then show ?case by simp
next
  case (Cons a cs)
  show ?case
  proof (cases "k = a")
    case True
    with Cons.prems have "k \<notin> set cs" by simp
    then have "sum_list (map (\<lambda>c. if k = c then 1 else 0) cs) = (0::nat)"
      by (induction cs) auto
    with True show ?thesis by simp
  next
    case False
    with Cons show ?thesis by simp
  qed
qed

lemma count_by_column:
  assumes "distinct cs" and "f ` set xs \<subseteq> set cs"
  shows "sum_list (map (\<lambda>c. length (filter (\<lambda>x. P x \<and> f x = c) xs)) cs) = length (filter P xs)"
  using assms(2)
proof (induction xs)
  case Nil
  then show ?case by simp
next
  case (Cons x xs)
  then have IH: "sum_list (map (\<lambda>c. length (filter (\<lambda>x. P x \<and> f x = c) xs)) cs) = length (filter P xs)"
    and mem: "f x \<in> set cs"
    by auto
  have split: "\<And>c. length (filter (\<lambda>x. P x \<and> f x = c) (x # xs)) =
      (if P x then (if f x = c then 1 else 0) else (0::nat)) + length (filter (\<lambda>x. P x \<and> f x = c) xs)"
    by simp
  have "sum_list (map (\<lambda>c. length (filter (\<lambda>x. P x \<and> f x = c) (x # xs))) cs) =
      sum_list (map (\<lambda>c. if P x then (if f x = c then 1 else 0) else (0::nat)) cs) +
      sum_list (map (\<lambda>c. length (filter (\<lambda>x. P x \<and> f x = c) xs)) cs)"
    unfolding split by (rule sum_list_addf)
  also have "sum_list (map (\<lambda>c. if P x then (if f x = c then 1 else 0) else (0::nat)) cs) =
      (if P x then 1 else 0)"
    using sum_list_indicator [OF assms(1) mem] by (cases "P x") simp_all
  finally show ?case using IH by simp
qed

lemma crosstab_row_sum:
  "sum_list (map (\<lambda>c. length (filter (\<lambda>x. rk x = r \<and> ck x = c) rows))
       (sort (remdups (map ck rows)))) = length (filter (\<lambda>x. rk x = r) rows)"
  by (rule count_by_column) auto

lemma crosstab_closed_form:
  "crosstab_row_normalized rk ck rows =
     map (\<lambda>r. (r, map (\<lambda>c. (c, real (length (filter (\<lambda>x. rk x = r \<and> ck x = c) rows)) /
                               real (length (filter (\<lambda>x. rk x = r) rows)) * 100))
                    (sort (remdups (map ck rows)))))
       (sort (remdups (map rk rows)))"
  by (simp add: crosstab_row_normalized_def mul_table_def normalize_index_def
      crosstab_counts_def comp_def crosstab_row_sum)

lemma table_row_crosstab:
  "r \<in> rk ` set rows \<Longrightarrow>
   table_row (crosstab_row_normalized rk ck rows) r =
     map (\<lambda>c. (c, real (length (filter (\<lambda>x. rk x = r \<and> ck x = c) rows)) /
                   real (length (filter (\<lambda>x. rk x = r) rows)) * 100))
       (sort (remdups (map ck rows)))"
  by (simp add: table_row_def crosstab_closed_form map_of_map_restrict restrict_map_def)

lemma sum_list_scaled:
  "sum_list (map (\<lambda>c. real (g c) / d * k) cs) = real (sum_list (map g cs)) / d * k"
  by (induction cs) (simp_all add: add_divide_distrib distrib_right)

text \<open>
  C5. The row-normalised cross-tabulation has one row per distinct row value and one cell
  per distinct column value; the cell of \<open>r\<close> and \<open>c\<close> is the number of rows with both
  values over the number of rows with value \<open>r\<close>, times 100; and the cells of a row that
  has a record sum to 100, hence to 100 within a millionth.
\<close>

theorem crosstab_row_normalized_percentages:
  "map fst (crosstab_row_normalized rk ck rows) = sort (remdups (map rk rows)) \<and>
   (r \<in> rk ` set rows \<longrightarrow>
      map fst (table_row (crosstab_row_normalized rk ck rows) r) = sort (remdups (map ck rows)) \<and>
      (c \<in> ck ` set rows \<longrightarrow>
         table_cell (crosstab_row_normalized rk ck rows) r c =
           Some (real (length (filter (\<lambda>x. rk x = r \<and> ck x = c) rows)) /
                 real (length (filter (\<lambda>x. rk x = r) rows)) * 100)) \<and>
      sum_list (map snd (table_row (crosstab_row_normalized rk ck rows) r)) = 100 \<and>
      \<bar>sum_list (map snd (table_row (crosstab_row_normalized rk ck rows) r)) - 100\<bar> \<le> 1 / 10 ^ 6)"
proof -
  have rows_of: "map fst (crosstab_row_normalized rk ck rows) = sort (remdups (map rk rows))"
    by (simp add: crosstab_closed_form comp_def)
  have in_row: ?thesis if r: "r \<in> rk ` set rows"
  proof -
    note tr = table_row_crosstab [OF r, of ck]
    have cols: "map fst (table_row (crosstab_row_normalized rk ck rows) r) =
        sort (remdups (map ck rows))"
      by (simp add: tr comp_def)
    have cell: "table_cell (crosstab_row_normalized rk ck rows) r c =
        Some (real (length (filter (\<lambda>x. rk x = r \<and> ck x = c) rows)) /
              real (length (filter (\<lambda>x. rk x = r) rows)) * 100)"
      if "c \<in> ck ` set rows"
      using that by (simp add: table_cell_def tr map_of_map_restrict restrict_map_def)
    from r obtain x where "x \<in> set rows" "rk x = r" by auto
    then have "x \<in> set (filter (\<lambda>x. rk x = r) rows)" by simp
    then have pos: "length (filter (\<lambda>x. rk x = r) rows) \<noteq> 0"
      by (auto simp: filter_empty_conv)
    have "map snd (table_row (crosstab_row_normalized rk ck rows) r) =
        map (\<lambda>c. real (length (filter (\<lambda>x. rk x = r \<and> ck x = c) rows)) /
                  real (length (filter (\<lambda>x. rk x = r) rows)) * 100)
          (sort (remdups (map ck rows)))"
      by (simp only: tr map_map comp_def snd_conv)
    then have "sum_list (map snd (table_row (crosstab_row_normalized rk ck rows) r)) =
        real (length (filter (\<lambda>x. rk x = r) rows)) /
        real (length (filter (\<lambda>x. rk x = r) rows)) * 100"
      by (simp only: sum_list_scaled crosstab_row_sum)
    also have "\<dots> = 100" using pos by simp
    finally have total: "sum_list (map snd (table_row (crosstab_row_normalized rk ck rows) r)) = 100" .
    show ?thesis using rows_of cols cell total by simp
  qed
  show ?thesis
  proof (cases "r \<in> rk ` set rows")
    case True
    then show ?thesis by (rule in_row)
  next
    case False
    then show ?thesis using rows_of by simp
  qed
qed

theorem crosstab_row_normalized_percentages_witness:
  "''Brazil'' \<in> Country ` set [row_A, row_B, row_C] \<and>
   ''Anxiety'' \<in> Mental_Health_Condition ` set [row_A, row_B, row_C] \<and>
   table_cell (crosstab_row_normalized Country Mental_Health_Condition [row_A, row_B, row_C])
     ''Brazil'' ''Anxiety'' = Some 50 \<and>
   sum_list (map snd (table_row
     (crosstab_row_normalized Country Mental_Health_Condition [row_A, row_B, row_C]) ''Brazil'')) = 100"
  using crosstab_row_normalized_percentages [of Country Mental_Health_Condition
      "[row_A, row_B, row_C]" "''Brazil''" "''Anxiety''"]
  by (simp add: row_A_def row_B_def row_C_def)

text \<open>The whole table of the three example rows.\<close>

lemma crosstab_example:
  "crosstab_row_normalized Country Mental_Health_Condition [row_A, row_B, row_C] =
     [(''Brazil'', [(''Anxiety'', 50), (''Depression'', 50), (''PTSD'', 0)]),
      (''Japan'', [(''Anxiety'', 0), (''Depression'', 0), (''PTSD'', 100)])]"
  by (simp add: crosstab_row_normalized_def mul_table_def normalize_index_def
      crosstab_counts_def row_A_def row_B_def row_C_def)

section \<open>Correlation properties\<close>

subsection \<open>Welford's update computes the textbook sums\<close>

lemma sum_deviation_products:
  "sum_list (map (\<lambda>(x, y). (x - a) * (y - b)) ps) =
     sum_list (map (\<lambda>(x, y). x * y) ps) - a * sum_list (map snd ps) - b * sum_list (map fst ps)
       + real (length ps) * a * b"
  by (induction ps) (auto simp: algebra_simps)

lemma codeviation_expand:
  assumes "ps \<noteq> []"
  shows "codeviation ps =
     sum_list (map (\<lambda>(x, y). x * y) ps)
       - real (length ps) * avg (map fst ps) * avg (map snd ps)"
proof -
  have n: "real (length ps) \<noteq> 0" using assms by simp
  show ?thesis
    unfolding codeviation_def sum_deviation_products avg_def
    using n by (simp add: field_simps)
qed

lemma welford_step_algebra:
  fixes n m p a b S :: real
  shows "S - n * m * p + ((m + (n + 1) * a) - (m + a)) * ((p + (n + 1) * b) - p) =
         S + (m + (n + 1) * a) * (p + (n + 1) * b) - (n + 1) * (m + a) * (p + b)"
  by (simp add: algebra_simps)

lemma foldl_welford_snoc:
  "foldl welford_update w (ps @ [p]) = welford_update (foldl welford_update w ps) p"
  by simp

lemma welford_invariant:
  fixes ps :: "(real \<times> real) list"
  defines "w \<equiv> foldl welford_update welford_init ps"
  shows "nobs w = length ps \<and>
         real (length ps) * meanx w = sum_list (map fst ps) \<and>
         real (length ps) * meany w = sum_list (map snd ps) \<and>
         ssqdm_x w = sum_list (map (\<lambda>(x, y). x * x) ps) - real (length ps) * meanx w * meanx w \<and>
         ssqdm_y w = sum_list (map (\<lambda>(x, y). y * y) ps) - real (length ps) * meany w * meany w \<and>
         covxy w = sum_list (map (\<lambda>(x, y). x * y) ps) - real (length ps) * meanx w * meany w"
  unfolding w_def
proof (induction ps rule: rev_induct)
  case Nil
  show ?case by (simp add: welford_init_def)
next
  case (snoc p ps)
  obtain vx vy where p: "p = (vx, vy)" by (cases p)
  define w0 where "w0 = foldl welford_update welford_init ps"
  define n where "n = real (length ps)"
  have IH: "nobs w0 = length ps" "n * meanx w0 = sum_list (map fst ps)"
    "n * meany w0 = sum_list (map snd ps)"
    "ssqdm_x w0 = sum_list (map (\<lambda>(x, y). x * x) ps) - n * meanx w0 * meanx w0"
    "ssqdm_y w0 = sum_list (map (\<lambda>(x, y). y * y) ps) - n * meany w0 * meany w0"
    "covxy w0 = sum_list (map (\<lambda>(x, y). x * y) ps) - n * meanx w0 * meany w0"
    using snoc.IH unfolding w0_def n_def by simp_all
  have n1: "n + 1 \<noteq> 0" unfolding n_def by linarith
  have len: "real (length (ps @ [p])) = n + 1" unfolding n_def by simp
  have step: "foldl welford_update welford_init (ps @ [p]) = welford_update w0 (vx, vy)"
    unfolding w0_def p by simp
  have nobs': "nobs (welford_update w0 (vx, vy)) = length (ps @ [p])"
    by (simp add: welford_update_def Let_def IH(1))
  have real_n: "real (nobs w0 + 1) = n + 1" "real (Suc (nobs w0)) = n + 1"
    by (simp_all add: IH(1) n_def)
  have mx: "meanx (welford_update w0 (vx, vy)) = meanx w0 + (vx - meanx w0) / (n + 1)"
    by (simp add: welford_update_def Let_def real_n del: of_nat_Suc of_nat_add)
  have my: "meany (welford_update w0 (vx, vy)) = meany w0 + (vy - meany w0) / (n + 1)"
    by (simp add: welford_update_def Let_def real_n del: of_nat_Suc of_nat_add)
  have sx: "ssqdm_x (welford_update w0 (vx, vy)) =
      ssqdm_x w0 + (vx - (meanx w0 + (vx - meanx w0) / (n + 1))) * (vx - meanx w0)"
    by (simp add: welford_update_def Let_def real_n del: of_nat_Suc of_nat_add)
  have sy: "ssqdm_y (welford_update w0 (vx, vy)) =
      ssqdm_y w0 + (vy - (meany w0 + (vy - meany w0) / (n + 1))) * (vy - meany w0)"
    by (simp add: welford_update_def Let_def real_n del: of_nat_Suc of_nat_add)
  have cxy: "covxy (welford_update w0 (vx, vy)) =
      covxy w0 + (vx - (meanx w0 + (vx - meanx w0) / (n + 1))) * (vy - meany w0)"
    by (simp add: welford_update_def Let_def real_n del: of_nat_Suc of_nat_add)
  have sums: "sum_list (map fst (ps @ [p])) = sum_list (map fst ps) + vx"
    "sum_list (map snd (ps @ [p])) = sum_list (map snd ps) + vy"
    "sum_list (map (\<lambda>(x, y). x * x) (ps @ [p])) = sum_list (map (\<lambda>(x, y). x * x) ps) + vx * vx"
    "sum_list (map (\<lambda>(x, y). y * y) (ps @ [p])) = sum_list (map (\<lambda>(x, y). y * y) ps) + vy * vy"
    "sum_list (map (\<lambda>(x, y). x * y) (ps @ [p])) = sum_list (map (\<lambda>(x, y). x * y) ps) + vx * vy"
    by (simp_all add: p)
  define a where "a = (vx - meanx w0) / (n + 1)"
  define b where "b = (vy - meany w0) / (n + 1)"
  have vx: "vx = meanx w0 + (n + 1) * a" and vy: "vy = meany w0 + (n + 1) * b"
    using n1 by (simp_all add: a_def b_def)
  have g2: "(n + 1) * (meanx w0 + a) = sum_list (map fst ps) + vx"
    unfolding IH(2) [symmetric] by (subst vx) (simp add: algebra_simps)
  have g3: "(n + 1) * (meany w0 + b) = sum_list (map snd ps) + vy"
    unfolding IH(3) [symmetric] by (subst vy) (simp add: algebra_simps)
  have g4: "ssqdm_x w0 + (vx - (meanx w0 + a)) * (vx - meanx w0) =
      sum_list (map (\<lambda>(x, y). x * x) ps) + vx * vx - (n + 1) * (meanx w0 + a) * (meanx w0 + a)"
    unfolding IH(4) using welford_step_algebra [of _ n "meanx w0" "meanx w0" a a]
    by (simp add: vx [symmetric])
  have g5: "ssqdm_y w0 + (vy - (meany w0 + b)) * (vy - meany w0) =
      sum_list (map (\<lambda>(x, y). y * y) ps) + vy * vy - (n + 1) * (meany w0 + b) * (meany w0 + b)"
    unfolding IH(5) using welford_step_algebra [of _ n "meany w0" "meany w0" b b]
    by (simp add: vy [symmetric])
  have g6: "covxy w0 + (vx - (meanx w0 + a)) * (vy - meany w0) =
      sum_list (map (\<lambda>(x, y). x * y) ps) + vx * vy - (n + 1) * (meanx w0 + a) * (meany w0 + b)"
    unfolding IH(6) using welford_step_algebra [of _ n "meanx w0" "meany w0" a b]
    by (simp add: vx [symmetric] vy [symmetric])
  show ?case
    unfolding step len sums mx my sx sy cxy a_def [symmetric] b_def [symmetric]
    using nobs' g2 g3 g4 g5 g6 by simp
qed


lemma twice_products:
  "sum_list (map (\<lambda>(x, y). x * y) (twice xs)) = sum_list (map (\<lambda>x. x * x) xs)"
  by (simp add: twice_def comp_def)

lemma fst_products:
  "sum_list (map (\<lambda>(x, y). x * x) ps) = sum_list (map (\<lambda>x. x * x) (map fst ps))"
  by (induction ps) auto

lemma snd_products:
  "sum_list (map (\<lambda>(x, y). y * y) ps) = sum_list (map (\<lambda>x. x * x) (map snd ps))"
  by (induction ps) auto

lemma twice_parts [simp]: "map fst (twice xs) = xs" "map snd (twice xs) = xs"
  "length (twice xs) = length xs" "twice xs = [] \<longleftrightarrow> xs = []"
  by (simp_all add: twice_def comp_def)

lemma welford_textbook:
  assumes "ps \<noteq> []"
  defines "w \<equiv> foldl welford_update welford_init ps"
  shows "nobs w = length ps"
    and "covxy w = codeviation ps"
    and "ssqdm_x w = codeviation (twice (map fst ps))"
    and "ssqdm_y w = codeviation (twice (map snd ps))"
proof -
  note inv = welford_invariant [of ps, folded w_def]
  have n: "real (length ps) \<noteq> 0" using assms(1) by simp
  have mx: "meanx w = avg (map fst ps)"
    using inv n by (simp add: avg_def field_simps)
  have my: "meany w = avg (map snd ps)"
    using inv n by (simp add: avg_def field_simps)
  show "nobs w = length ps" using inv by simp
  show "covxy w = codeviation ps"
    using inv by (simp add: codeviation_expand [OF assms(1)] mx my)
  have "twice (map fst ps) \<noteq> []" "twice (map snd ps) \<noteq> []"
    using assms(1) by simp_all
  then show "ssqdm_x w = codeviation (twice (map fst ps))"
    and "ssqdm_y w = codeviation (twice (map snd ps))"
    using inv by (simp_all add: codeviation_expand twice_products fst_products snd_products mx my)
qed

lemma foldl_nancorr_step:
  "foldl nancorr_step w (zip xs ys) = foldl welford_update w (complete_pairs xs ys)"
proof (induction xs arbitrary: ys w)
  case Nil
  show ?case by (simp add: complete_pairs_def)
next
  case (Cons x xs)
  show ?case
  proof (cases ys)
    case Nil
    then show ?thesis by (simp add: complete_pairs_def)
  next
    case (Cons y ys')
    have tail: "complete_pairs (x # xs) (y # ys') =
        (case x of None \<Rightarrow> [] | Some vx \<Rightarrow> (case y of None \<Rightarrow> [] | Some vy \<Rightarrow> [(vx, vy)]))
          @ complete_pairs xs ys'"
      by (simp add: complete_pairs_def)
    show ?thesis
      unfolding Cons tail
      using Cons.IH [of _ ys']
      by (cases x; cases y) (simp_all add: nancorr_step_def)
  qed
qed

lemma nancorr_pair_pearson: "nancorr_pair xs ys = pearson (complete_pairs xs ys)"
proof (cases "complete_pairs xs ys = []")
  case True
  then show ?thesis
    by (simp add: nancorr_pair_def foldl_nancorr_step pearson_def welford_init_def)
next
  case False
  note tb = welford_textbook [OF False]
  have "nobs (foldl welford_update welford_init (complete_pairs xs ys)) \<ge> 1"
    using False tb(1) by (cases "complete_pairs xs ys") simp_all
  then show ?thesis
    using False by (simp add: nancorr_pair_def foldl_nancorr_step pearson_def Let_def tb)
qed


lemma swap_pairs_parts [simp]:
  "map fst (swap_pairs ps) = map snd ps" "map snd (swap_pairs ps) = map fst ps"
  "swap_pairs ps = [] \<longleftrightarrow> ps = []"
  by (simp_all add: swap_pairs_def comp_def case_prod_beta)

lemma codeviation_swap: "codeviation (swap_pairs ps) = codeviation ps"
proof -
  have "map (\<lambda>(x, y). (x - avg (map snd ps)) * (y - avg (map fst ps))) (swap_pairs ps) =
      map (\<lambda>(x, y). (x - avg (map fst ps)) * (y - avg (map snd ps))) ps"
    by (simp add: swap_pairs_def case_prod_beta mult.commute)
  then show ?thesis by (simp add: codeviation_def)
qed

lemma pearson_swap: "pearson (swap_pairs ps) = pearson ps"
  by (simp add: pearson_def codeviation_swap mult.commute)

lemma complete_pairs_swap: "complete_pairs ys xs = swap_pairs (complete_pairs xs ys)"
proof (induction xs arbitrary: ys)
  case Nil
  show ?case by (simp add: complete_pairs_def swap_pairs_def)
next
  case (Cons x xs)
  show ?case
  proof (cases ys)
    case Nil
    then show ?thesis by (simp add: complete_pairs_def swap_pairs_def)
  next
    case (Cons y ys')
    have "complete_pairs ys' xs = swap_pairs (complete_pairs xs ys')"
      by (rule Cons.IH)
    then show ?thesis
      unfolding Cons
      by (cases x; cases y) (simp_all add: complete_pairs_def swap_pairs_def)
  qed
qed

lemma nancorr_pair_commute: "nancorr_pair ys xs = nancorr_pair xs ys"
  by (simp add: nancorr_pair_pearson complete_pairs_swap [of ys xs] pearson_swap)

lemma complete_pairs_same: "complete_pairs xs xs = twice (dropna xs)"
proof (induction xs)
  case Nil
  show ?case by (simp add: complete_pairs_def twice_def dropna_def)
next
  case (Cons x xs)
  then show ?case
    by (cases x) (simp_all add: complete_pairs_def twice_def dropna_def)
qed

lemma codeviation_twice_nonneg: "0 \<le> codeviation (twice xs)"
proof -
  have "codeviation (twice xs) = sum_list (map (\<lambda>x. (x - avg xs) * (x - avg xs)) xs)"
    by (simp add: codeviation_def) (simp add: twice_def comp_def)
  moreover have "0 \<le> sum_list (map (\<lambda>x. (x - avg xs) * (x - avg xs)) xs)"
    by (rule sum_list_nonneg) auto
  ultimately show ?thesis by simp
qed

lemma pearson_twice:
  assumes "codeviation (twice xs) \<noteq> 0"
  shows "pearson (twice xs) = Some 1"
proof -
  have ne: "xs \<noteq> []"
    using assms by (auto simp: codeviation_def twice_def)
  have pos: "0 < codeviation (twice xs)"
    using assms codeviation_twice_nonneg [of xs] by simp
  have "sqrt (codeviation (twice xs) * codeviation (twice xs)) = codeviation (twice xs)"
    using pos by simp
  then show ?thesis
    using ne pos by (simp add: pearson_def)
qed

lemma nancorr_diagonal:
  assumes "variance xs \<noteq> 0"
  shows "nancorr_pair xs xs = Some 1"
proof -
  from assms have "codeviation (twice (dropna xs)) \<noteq> 0"
    by (auto simp: variance_def)
  then show ?thesis
    by (simp add: nancorr_pair_pearson complete_pairs_same pearson_twice)
qed

lemma nancorr_entry:
  assumes "i < length cols" "j < length cols"
  shows "nancorr cols ! i ! j =
     (if j \<le> i then nancorr_pair (cols ! i) (cols ! j) else nancorr_pair (cols ! j) (cols ! i))"
  using assms by (simp add: nancorr_def)

text \<open>
  C8. The correlation matrix is symmetric, every entry is Pearson's coefficient of the
  observations its two columns share, and the diagonal entry of a column whose present
  cells have non-zero variance is exactly 1.
\<close>

theorem nancorr_symmetric_unit_diagonal:
  "i < length cols \<and> j < length cols \<longrightarrow>
     nancorr cols ! i ! j = nancorr cols ! j ! i \<and>
     nancorr cols ! i ! j = pearson (complete_pairs (cols ! i) (cols ! j)) \<and>
     (variance (cols ! i) \<noteq> 0 \<longrightarrow> nancorr cols ! i ! i = Some 1)"
proof (intro impI conjI; elim conjE)
  assume ij: "i < length cols" "j < length cols"
  have entry: "nancorr cols ! i ! j = nancorr_pair (cols ! i) (cols ! j)"
    using nancorr_entry [OF ij] nancorr_pair_commute [of "cols ! i" "cols ! j"] by simp
  have entry': "nancorr cols ! j ! i = nancorr_pair (cols ! j) (cols ! i)"
    using nancorr_entry [OF ij(2) ij(1)] nancorr_pair_commute [of "cols ! i" "cols ! j"] by simp
  show "nancorr cols ! i ! j = nancorr cols ! j ! i"
    unfolding entry entry' by (rule nancorr_pair_commute [symmetric])
  show "nancorr cols ! i ! j = pearson (complete_pairs (cols ! i) (cols ! j))"
    unfolding entry by (rule nancorr_pair_pearson)
  show "nancorr cols ! i ! i = Some 1" if "variance (cols ! i) \<noteq> 0"
    using nancorr_entry [OF ij(1) ij(1)] nancorr_diagonal [OF that] by simp
qed

text \<open>The seven columns of the three example rows; the first is the ages.\<close>

lemma example_columns_length: "length example_columns = 7"
  by (simp add: example_columns_def numeric_cols_def)

lemma example_age_column: "example_columns ! 0 = [Some 25, Some 40, Some 31]"
  by (simp add: example_columns_def numeric_cols_def column_def new_frame_def
      row_A_def row_B_def row_C_def)

lemma example_age_variance: "variance (example_columns ! 0) = 38"
  by (simp add: example_age_column variance_def dropna_def codeviation_def twice_def avg_def)

theorem nancorr_symmetric_unit_diagonal_witness:
  "0 < length example_columns \<and> 6 < length example_columns \<and>
   variance (example_columns ! 0) \<noteq> 0 \<and>
   nancorr example_columns ! 0 ! 6 = nancorr example_columns ! 6 ! 0 \<and>
   nancorr example_columns ! 0 ! 0 = Some 1"
  using nancorr_symmetric_unit_diagonal [of 0 example_columns 6]
  by (simp add: example_columns_length example_age_variance)

section \<open>Least-squares properties\<close>

text \<open>
  The fit of the points (1, 2), (2, 4), (3, 6), and two fits of fewer than two distinct x
  where y has spread.
\<close>

lemma ols_line_example:
  "ols_fit rd [Some 1, Some 2, Some 3] [Some 2, Some 4, Some 6] =
     Inr \<lparr>params = [Some 0, Some 2], rsquared = Number 1, n_obs = 3\<rparr>"
  by (simp add: ols_fit_def add_constant_def is_nonzero_const_def ptp_def dropna_def
      pinv_solve_def codeviation_def twice_def avg_def fittedvalues_def dot_def ssr_def
      centered_tss_def Let_def)

lemma ols_two_equal_x:
  "ols_fit rd [Some 2, Some 2] [Some 1, Some 3] =
     Inr \<lparr>params = [Some 1], rsquared = Number 0, n_obs = 2\<rparr>"
  by (simp add: ols_fit_def add_constant_def is_nonzero_const_def ptp_def dropna_def
      pinv_solve_def codeviation_def twice_def avg_def fittedvalues_def dot_def ssr_def
      centered_tss_def Let_def)

lemma ols_zero_x:
  "ols_fit rd [Some 0, Some 0] [Some 1, Some 3] =
     Inr \<lparr>params = [Some 2, Some 0], rsquared = Number 0, n_obs = 2\<rparr>"
  by (simp add: ols_fit_def add_constant_def is_nonzero_const_def ptp_def dropna_def
      pinv_solve_def codeviation_def twice_def avg_def fittedvalues_def dot_def ssr_def
      centered_tss_def Let_def)

lemma ols_fit_returns:
  assumes "xcol \<noteq> []" "None \<notin> set xcol"
  shows "\<exists>m. ols_fit rd xcol ycol = Inr m \<and> n_obs m = length xcol"
  using assms by (simp add: ols_fit_def Let_def)

lemma ols_fit_missing_x:
  assumes "xcol \<noteq> []" "None \<in> set xcol"
  shows "ols_fit rd xcol ycol = Inl MissingDataError"
  using assms by (simp add: ols_fit_def)

lemma ols_fit_n_obs: "ols_fit rd xcol ycol = Inr m \<Longrightarrow> n_obs m = length xcol"
  by (auto simp: ols_fit_def Let_def split: if_splits)

subsection \<open>The tabs as a function of the filtered rows\<close>

lemma assign_keeps_rows [simp]:
  "frame_rows (assign_jitter normal fr) = frame_rows fr"
  "frame_rows (assign_age_group fr) = frame_rows fr"
  "frame_rows (assign_sleep_bin fr) = frame_rows fr"
  "frame_rows (new_frame rows) = rows"
  by (simp_all add: assign_jitter_def assign_age_group_def assign_sleep_bin_def new_frame_def)

lemma assign_keeps_columns [simp]:
  "column c (assign_jitter normal fr) = column c fr"
  "column c (assign_age_group fr) = column c fr"
  "column c (assign_sleep_bin fr) = column c fr"
  "column c (new_frame rows) = map (cell c) rows"
  by (simp_all add: column_def)

lemma assigned_columns [simp]:
  "Happiness_Jitter (assign_jitter normal fr) =
     Some (map2 (+) (map Happiness_Score (frame_rows fr)) (map normal [0..<length (frame_rows fr)]))"
  "Happiness_Jitter (assign_age_group fr) = Happiness_Jitter fr"
  "Sleep_Bin (assign_sleep_bin fr) = Some (map (\<lambda>r. sleep_bin (Sleep_Hours r)) (frame_rows fr))"
  by (simp_all add: assign_jitter_def assign_sleep_bin_def assign_age_group_def)

lemma tabs_ending:
  "ending (tabs rows u observed normal rd) =
     (case ols_fit rd (map (cell (x_var u)) rows) (map (cell (y_var u)) rows) of
        Inl e \<Rightarrow> Crashed e
      | Inr model \<Rightarrow> (case summary model of Inl e \<Rightarrow> Crashed e | Inr details \<Rightarrow> Completed))"
  by (simp add: tabs_def Let_def split: sum.split)



lemma tabs_one_row:
  "ending (tabs [r] u observed normal rd) =
     (if cell (x_var u) r = None then Crashed MissingDataError else Crashed ValueError)"
proof (cases "cell (x_var u) r")
  case None
  then show ?thesis
    by (simp add: tabs_ending ols_fit_missing_x)
next
  case (Some v)
  then obtain m where "ols_fit rd [Some v] [cell (y_var u) r] = Inr m" "n_obs m = 1"
    using ols_fit_returns [of "[Some v]" rd "[cell (y_var u) r]"] by auto
  with Some show ?thesis
    by (simp add: tabs_ending summary_def)
qed

lemma load_data_csv_A: "load_data (Some [csv_A]) = Inr [row_A]"
  by (simp add: load_data_Some csv_A_def row_A_def add_stress_numeric_def stress_map_def
      csv_row.extend_def)

lemma filtered_row_A: "filtered_df [row_A] everything_selected = [row_A]"
  by (simp add: filtered_df_filter passes_def row_A_def everything_selected_def)

lemma run_single_row:
  "filters u = everything_selected \<Longrightarrow>
   run (Some [csv_A]) u observed normal rd = tabs [row_A] u observed normal rd"
  by (simp add: run_def load_data_csv_A filtered_row_A)

lemma stress_widgets:
  "x_var stress_vs_happiness = Stress_Numeric_col"
  "y_var stress_vs_happiness = Happiness_col"
  "Stress_Level_Numeric row_A = Some 1"
  "Stress_Level_Numeric row_B = None"
  by (simp_all add: stress_vs_happiness_def row_A_def row_B_def)

text \<open>
  C9, amended. The fit raises no error for want of distinct x values: on every non-empty
  x column without a missing cell, however few values it holds, it returns a result on
  all the observations. It raises \<^verbatim>\<open>MissingDataError\<close> for a missing x cell. An
  exception of the fit ends the run, for the script has no handler; and on a table of one
  row without a missing x cell the run ends with the \<^verbatim>\<open>ValueError\<close> of
  \<^verbatim>\<open>model.summary()\<close>.
\<close>

theorem ols_fit_never_insufficient:
  "(xcol \<noteq> [] \<and> None \<notin> set xcol \<longrightarrow>
      (\<exists>m. ols_fit rd xcol ycol = Inr m \<and> n_obs m = length xcol)) \<and>
   (xcol \<noteq> [] \<and> None \<in> set xcol \<longrightarrow> ols_fit rd xcol ycol = Inl MissingDataError) \<and>
   (ols_fit rd (map (cell (x_var u)) rows) (map (cell (y_var u)) rows) = Inl e \<longrightarrow>
      ending (tabs rows u observed normal rd) = Crashed e) \<and>
   (cell (x_var u) r \<noteq> None \<longrightarrow> ending (tabs [r] u observed normal rd) = Crashed ValueError)"
  using ols_fit_returns [of xcol rd ycol] ols_fit_missing_x [of xcol rd ycol]
    tabs_ending [of rows u observed normal rd] tabs_one_row [of r u observed normal rd]
  by simp

theorem ols_fit_never_insufficient_witness:
  "map_sum id n_obs (ols_fit some_rounding [Some 2, Some 2] [Some 1, Some 3]) = Inr 2 \<and>
   ols_fit some_rounding [None, Some 4] [Some 9, Some 8] = Inl MissingDataError \<and>
   ols_fit some_rounding (map (cell (x_var stress_vs_happiness)) [row_A, row_B, row_C])
     (map (cell (y_var stress_vs_happiness)) [row_A, row_B, row_C]) = Inl MissingDataError \<and>
   ending (tabs [row_A, row_B, row_C] stress_vs_happiness False (\<lambda>i. 0) some_rounding) =
     Crashed MissingDataError \<and>
   cell (x_var stress_vs_happiness) row_A = Some 1 \<and>
   ending (tabs [row_A] stress_vs_happiness False (\<lambda>i. 0) some_rounding) = Crashed ValueError"
  using
    ols_fit_never_insufficient [of "[Some 2, Some 2]" some_rounding "[Some 1, Some 3]"
      stress_vs_happiness "[row_A, row_B, row_C]" MissingDataError False "\<lambda>i. 0" row_A]
    ols_fit_never_insufficient [of "[None, Some 4]" some_rounding "[Some 9, Some 8]"
      stress_vs_happiness "[row_A, row_B, row_C]" MissingDataError False "\<lambda>i. 0" row_A]
  by (simp add: ols_two_equal_x ols_fit_missing_x stress_widgets)

text \<open>
  C9, as stated, fails: on a filtered table of one row, so with one distinct x value, the
  fit of happiness on age returns a result on that one observation, and the run then ends
  with the \<^verbatim>\<open>ValueError\<close> of \<^verbatim>\<open>model.summary()\<close>, which nothing catches.
\<close>

theorem ols_fit_single_row_counterexample:
  "map_sum id n_obs
     (ols_fit some_rounding (column Age_col (new_frame [row_A]))
        (column Happiness_col (new_frame [row_A]))) = Inr 1 \<and>
   ending (run (Some [csv_A]) age_vs_happiness False (\<lambda>i. 0) some_rounding) =
     Crashed ValueError"
  by (simp add: run_single_row age_vs_happiness_def tabs_ending summary_def row_A_def
      ols_fit_def Let_def)

section \<open>The summary does not depend on the jitter\<close>

lemma is_scatter_simps [simp]:
  "is_scatter (Scatter jitter)"
  "\<not> is_scatter (Choropleth means)"
  "\<not> is_scatter (Metric label v)"
  "\<not> is_scatter (Percent_Bars name table)"
  "\<not> is_scatter (Mean_Bars exercise diet sleep)"
  "\<not> is_scatter (Heatmap matrix)"
  "\<not> is_scatter (Code model)"
  by (simp_all add: is_scatter_def)

lemma is_summary_simps [simp]:
  "is_summary (Metric label v)"
  "is_summary (Heatmap matrix)"
  "\<not> is_summary (Scatter jitter)"
  "\<not> is_summary (Choropleth means)"
  "\<not> is_summary (Percent_Bars name table)"
  "\<not> is_summary (Mean_Bars exercise diet sleep)"
  "\<not> is_summary (Code model)"
  by (simp_all add: is_summary_def)

lemma is_average_or_heatmap_simps [simp]:
  "is_average_or_heatmap (Metric ''Average Happiness'' v)"
  "is_average_or_heatmap (Metric ''Average Stress Level'' v)"
  "is_average_or_heatmap (Metric ''Social Interaction'' v)"
  "is_average_or_heatmap (Metric ''Sleep Hours'' v)"
  "\<not> is_average_or_heatmap (Metric ''Correlation Coefficient'' v)"
  "\<not> is_average_or_heatmap (Metric ''R-squared'' v)"
  "is_average_or_heatmap (Heatmap matrix)"
  "\<not> is_average_or_heatmap (Scatter jitter)"
  "\<not> is_average_or_heatmap (Choropleth means)"
  "\<not> is_average_or_heatmap (Percent_Bars name table)"
  "\<not> is_average_or_heatmap (Mean_Bars exercise diet sleep)"
  "\<not> is_average_or_heatmap (Code model)"
  by (simp_all add: is_average_or_heatmap_def)






















end
